theory Spec2Isabelle
  imports Main "HOL-Library.Word" "HOL-Library.Sublist"
begin

section \<open>The pet service of main.py: values, state and the outside world\<close>

text \<open>
  main.py is one module: a function \<open>init_connection_engine\<close> that reads four secrets
  and builds a SQLAlchemy engine, a hook \<open>create_connection\<close> that stores the engine in
  the module global \<open>db\<close>, and the view \<open>get_pets\<close> that runs one query and answers
  with JSON. Every library call (Secret Manager, SQLAlchemy, the driver) is a call to
  the outside world: the model takes what such a call answers as a parameter, records
  the call in a trace, and lets it raise.
\<close>

subsection \<open>Exceptions\<close>

datatype error =
    NameError string
  | IndexError
  | TypeError
  | Raised string

text \<open>
  \<open>NameError\<close> is the read of a module global that was never assigned, \<open>IndexError\<close>
  a row index out of range, \<open>TypeError\<close> what the JSON encoder raises on an object it
  cannot serialise, and \<open>Raised c\<close> an exception of class \<open>c\<close> raised inside a library
  call (a Secret Manager error, a decoding error, a SQLAlchemy error).
\<close>

subsection \<open>Column values and JSON documents\<close>

type_synonym bytes = "8 word list"

text \<open>
  The Python objects the MySQL driver puts into a row: \<open>None\<close> for NULL, \<open>int\<close> for the
  integer types, \<open>float\<close> for FLOAT and DOUBLE, \<open>Decimal\<close> for DECIMAL, \<open>str\<close> for
  text, \<open>bytes\<close> for binary columns, \<open>datetime\<close> and \<open>date\<close> for the temporal types.
  A float and a Decimal are given by their text, a datetime and a date by the HTTP-date
  text the encoder writes for them; the handler never computes with any of them.
\<close>

datatype py_value =
    PyNone
  | PyInt int
  | PyFloat string
  | PyDecimal string
  | PyStr string
  | PyBytes bytes
  | PyDatetime string
  | PyDate string

text \<open>A dictionary literal keeps its keys in the order written.\<close>

type_synonym py_dict = "(string \<times> py_value) list"

datatype json =
    JNull
  | JNumber int
  | JFloat string
  | JString string
  | JArray "json list"
  | JObject "(string \<times> json) list"

text \<open>
  What the framework's JSON encoder makes of one value: \<open>None\<close>, integers, floats and
  text are JSON natives; a datetime and a date come out as JSON strings; a \<open>bytes\<close> and
  a \<open>Decimal\<close> object are not serialisable and raise \<open>TypeError\<close>.
\<close>

fun json_value :: "py_value \<Rightarrow> error + json" where
  "json_value PyNone = Inr JNull"
| "json_value (PyInt i) = Inr (JNumber i)"
| "json_value (PyFloat r) = Inr (JFloat r)"
| "json_value (PyStr t) = Inr (JString t)"
| "json_value (PyDatetime d) = Inr (JString d)"
| "json_value (PyDate d) = Inr (JString d)"
| "json_value (PyDecimal d) = Inl TypeError"
| "json_value (PyBytes b) = Inl TypeError"

text \<open>A dictionary and a list are encoded member by member; the first raise ends the encoding.\<close>

fun json_object :: "py_dict \<Rightarrow> error + (string \<times> json) list" where
  "json_object [] = Inr []"
| "json_object ((k, v) # kvs) =
     (case json_value v of
        Inl e \<Rightarrow> Inl e
      | Inr j \<Rightarrow> (case json_object kvs of Inl e \<Rightarrow> Inl e | Inr js \<Rightarrow> Inr ((k, j) # js)))"

fun json_array :: "py_dict list \<Rightarrow> error + json list" where
  "json_array [] = Inr []"
| "json_array (d # ds) =
     (case json_object d of
        Inl e \<Rightarrow> Inl e
      | Inr fields \<Rightarrow>
          (case json_array ds of Inl e \<Rightarrow> Inl e | Inr objs \<Rightarrow> Inr (JObject fields # objs)))"

text \<open>\<open>jsonify(pets)\<close> for a list of dictionaries: the JSON array of their objects, or the raise.\<close>

definition jsonify :: "py_dict list \<Rightarrow> error + json" where
  "jsonify pets = (case json_array pets of Inl e \<Rightarrow> Inl e | Inr objs \<Rightarrow> Inr (JArray objs))"

subsection \<open>Engine, connection, rows\<close>

type_synonym row = "py_value list"

record url =
  drivername :: string
  username :: string
  password :: string
  database :: string
  query :: "(string \<times> string) list"

text \<open>An engine is what \<open>sqlalchemy.create_engine\<close> was given: the URL and the keyword arguments.\<close>

record engine =
  engine_url :: url
  engine_kwargs :: "(string \<times> int) list"

datatype secret_client = SecretClient

datatype connection = Connection engine

datatype result_proxy = ResultProxy "row list"

record http_request =
  request_args :: "(string \<times> string) list"
  request_headers :: "(string \<times> string) list"
  request_data :: bytes

subsection \<open>The trace of library calls\<close>

datatype call =
    NewSecretClient
  | AccessSecretVersion string
  | CreateEngine url "(string \<times> int) list"
  | Connect
  | Execute string
  | Close

text \<open>An event is a call together with whether it returned (\<open>True\<close>) or raised (\<open>False\<close>).\<close>

type_synonym event = "call \<times> bool"

subsection \<open>Program state and environment\<close>

text \<open>
  The state holds the module global \<open>db\<close> (\<open>None\<close> while it is unassigned), the request
  that is being served (Flask's ambient request object, which main.py never imports) and
  the trace of library calls made so far.
\<close>

record state =
  db :: "engine option"
  request :: http_request
  trace :: "event list"

text \<open>
  The environment fixes what the outside world answers: the project identifier that
  \<open>google.auth.default()\<close> gave at import time (it may be \<open>None\<close>), whether the Secret
  Manager client can be built, what the secret store answers for a resource name, what
  \<open>bytes.decode\<close> gives for a codec name and a byte string, whether the engine can be
  built, whether the pool hands out a connection, and what the database answers to a
  statement.
\<close>

record env =
  PROJECT_ID :: "string option"
  client_error :: "error option"
  secret_store :: "string \<Rightarrow> error + bytes"
  bytes_decode :: "string \<Rightarrow> bytes \<Rightarrow> error + string"
  engine_error :: "url \<Rightarrow> (string \<times> int) list \<Rightarrow> error option"
  checkout_error :: "engine \<Rightarrow> error option"
  database_answer :: "string \<Rightarrow> error + row list"

subsection \<open>Computations that change the state and may raise\<close>

type_synonym 'a prog = "state \<Rightarrow> (error + 'a) \<times> state"

definition ret :: "'a \<Rightarrow> 'a prog" where
  "ret x s = (Inr x, s)"

definition throw :: "error \<Rightarrow> 'a prog" where
  "throw e s = (Inl e, s)"

text \<open>Sequencing: an exception of the first computation skips the second.\<close>

definition and_then :: "'a prog \<Rightarrow> ('a \<Rightarrow> 'b prog) \<Rightarrow> 'b prog" where
  "and_then m f s = (case m s of (Inl e, s') \<Rightarrow> (Inl e, s') | (Inr x, s') \<Rightarrow> f x s')"

definition returned :: "error + 'a \<Rightarrow> bool" where
  "returned r = (case r of Inl _ \<Rightarrow> False | Inr _ \<Rightarrow> True)"

text \<open>A library call is recorded in the trace with its outcome, and yields that outcome.\<close>

definition library_call :: "call \<Rightarrow> error + 'a \<Rightarrow> 'a prog" where
  "library_call c r s = (r, s\<lparr>trace := trace s @ [(c, returned r)]\<rparr>)"

definition outcome :: "error option \<Rightarrow> 'a \<Rightarrow> error + 'a" where
  "outcome failure x = (case failure of Some e \<Rightarrow> Inl e | None \<Rightarrow> Inr x)"

text \<open>
  Python's \<open>with enter as c: block\<close>: when \<open>enter\<close> raises, nothing else runs; otherwise
  the block runs and \<open>leave\<close> (the \<open>__exit__\<close> of the context manager) runs after it whether
  the block returned or raised, and the outcome of the block is the outcome of the statement
  unless \<open>leave\<close> itself raises.
\<close>

definition with_stmt :: "'c prog \<Rightarrow> ('c \<Rightarrow> unit prog) \<Rightarrow> ('c \<Rightarrow> 'a prog) \<Rightarrow> 'a prog" where
  "with_stmt enter leave block s =
     (case enter s of
        (Inl e, s1) \<Rightarrow> (Inl e, s1)
      | (Inr c, s1) \<Rightarrow>
          (case block c s1 of
             (r, s2) \<Rightarrow>
               (case leave c s2 of
                  (Inl e, s3) \<Rightarrow> (Inl e, s3)
                | (Inr _, s3) \<Rightarrow> (r, s3))))"

subsection \<open>The library calls main.py makes\<close>

definition SecretManagerServiceClient :: "env \<Rightarrow> secret_client prog" where
  "SecretManagerServiceClient env =
     library_call NewSecretClient (outcome (client_error env) SecretClient)"

definition access_secret_version :: "env \<Rightarrow> secret_client \<Rightarrow> string \<Rightarrow> bytes prog" where
  "access_secret_version env client name =
     library_call (AccessSecretVersion name) (secret_store env name)"

text \<open>\<open>data.decode(codec)\<close> is a pure builtin: it touches no state and may raise.\<close>

definition decode :: "env \<Rightarrow> bytes \<Rightarrow> string \<Rightarrow> string prog" where
  "decode env data codec s = (bytes_decode env codec data, s)"

definition create_engine :: "env \<Rightarrow> url \<Rightarrow> (string \<times> int) list \<Rightarrow> engine prog" where
  "create_engine env u kwargs =
     library_call (CreateEngine u kwargs)
       (outcome (engine_error env u kwargs) \<lparr>engine_url = u, engine_kwargs = kwargs\<rparr>)"

definition connect :: "env \<Rightarrow> engine \<Rightarrow> connection prog" where
  "connect env pool =
     library_call Connect (outcome (checkout_error env pool) (Connection pool))"

definition execute :: "env \<Rightarrow> connection \<Rightarrow> string \<Rightarrow> result_proxy prog" where
  "execute env conn statement =
     library_call (Execute statement)
       (case database_answer env statement of Inl e \<Rightarrow> Inl e | Inr rows \<Rightarrow> Inr (ResultProxy rows))"

text \<open>\<open>fetchall\<close> hands over the rows the result already holds.\<close>

fun fetchall :: "result_proxy \<Rightarrow> row list" where
  "fetchall (ResultProxy rows) = rows"

text \<open>Leaving the \<open>with\<close> block closes the connection, which returns it to the pool.\<close>

definition close :: "connection \<Rightarrow> unit prog" where
  "close conn = library_call Close (Inr ())"

text \<open>\<open>row[i]\<close> for a literal index \<open>i \<ge> 0\<close>: out of range raises.\<close>

definition getitem :: "row \<Rightarrow> nat \<Rightarrow> error + py_value" where
  "getitem row i = (if i < length row then Inr (row ! i) else Inl IndexError)"

text \<open>An f-string field \<open>{x}\<close> formats \<open>str(x)\<close>; \<open>str(None)\<close> is the text \<open>None\<close>.\<close>

definition py_format :: "string option \<Rightarrow> string" where
  "py_format x = (case x of None \<Rightarrow> ''None'' | Some t \<Rightarrow> t)"

section \<open>The three functions of main.py\<close>

text \<open>
  The local variables of \<open>init_connection_engine\<close> that no library call feeds: the four
  resource names (f-strings over the global \<open>PROJECT_ID\<close>), the socket directory and the
  pool settings.
\<close>

definition db_user_secret :: "env \<Rightarrow> string" where
  "db_user_secret env =
     ''projects/'' @ py_format (PROJECT_ID env) @ ''/secrets/db_user_secret/versions/latest''"

definition db_password_secret :: "env \<Rightarrow> string" where
  "db_password_secret env =
     ''projects/'' @ py_format (PROJECT_ID env) @ ''/secrets/db_password_secret/versions/latest''"

definition db_name_secret :: "env \<Rightarrow> string" where
  "db_name_secret env =
     ''projects/'' @ py_format (PROJECT_ID env) @ ''/secrets/db_name_secret/versions/latest''"

definition cloud_sql_conn_name_secret :: "env \<Rightarrow> string" where
  "cloud_sql_conn_name_secret env =
     ''projects/'' @ py_format (PROJECT_ID env)
       @ ''/secrets/cloud_sql_connection_name_secret/versions/latest''"

definition db_socket_dir :: string where
  "db_socket_dir = ''/cloudsql''"

definition db_config :: "(string \<times> int) list" where
  "db_config =
     [(''pool_size'', 5), (''max_overflow'', 2), (''pool_timeout'', 30), (''pool_recycle'', 1800)]"

text \<open>
  The four secrets are fetched first, in this order; then the four payloads are decoded;
  then the engine is built. The first call that raises ends the function.
\<close>

definition init_connection_engine :: "env \<Rightarrow> engine prog" where
  "init_connection_engine env =
     and_then (SecretManagerServiceClient env) (\<lambda>client.
     and_then (access_secret_version env client (db_user_secret env)) (\<lambda>db_user_response.
     and_then (access_secret_version env client (db_password_secret env))
       (\<lambda>db_password_response.
     and_then (access_secret_version env client (db_name_secret env)) (\<lambda>db_name_response.
     and_then (access_secret_version env client (cloud_sql_conn_name_secret env))
       (\<lambda>cloud_sql_conn_name_response.
     and_then (decode env db_user_response ''UTF-8'') (\<lambda>db_user.
     and_then (decode env db_password_response ''UTF-8'') (\<lambda>db_pass.
     and_then (decode env db_name_response ''UTF-8'') (\<lambda>db_name.
     and_then (decode env cloud_sql_conn_name_response ''UTF-8'') (\<lambda>cloud_sql_connection_name.
     and_then
       (create_engine env
          \<lparr>drivername = ''mysql+pymysql'',
           username = db_user,
           password = db_pass,
           database = db_name,
           query = [(''unix_socket'', db_socket_dir @ ''/'' @ cloud_sql_connection_name)]\<rparr>
          db_config)
       (\<lambda>pool. ret pool))))))))))"

text \<open>The hook registered with \<open>@app.before_first_request\<close>.\<close>

definition create_connection :: "env \<Rightarrow> unit prog" where
  "create_connection env =
     and_then (init_connection_engine env) (\<lambda>pool s. (Inr (), s\<lparr>db := Some pool\<rparr>))"

text \<open>The loop \<open>for row in pets_result: pets.append({"id": row[0], "name": row[1]})\<close>.\<close>

fun append_rows :: "row list \<Rightarrow> py_dict list \<Rightarrow> error + py_dict list" where
  "append_rows [] pets = Inr pets"
| "append_rows (row # rest) pets =
     (case getitem row 0 of
        Inl e \<Rightarrow> Inl e
      | Inr v0 \<Rightarrow>
          (case getitem row 1 of
             Inl e \<Rightarrow> Inl e
           | Inr v1 \<Rightarrow> append_rows rest (pets @ [[(''id'', v0), (''name'', v1)]])))"

text \<open>
  \<open>get_pets\<close> takes no argument; the global \<open>db\<close> is looked up when \<open>db.connect()\<close> is
  evaluated, which raises \<open>NameError\<close> while \<open>db\<close> is unassigned. After the \<open>with\<close>
  block, \<open>jsonify(pets)\<close> is evaluated, which may raise, and paired with 200.
\<close>

definition get_pets :: "env \<Rightarrow> (json \<times> nat) prog" where
  "get_pets env s =
     (let pets = [] in
      case db s of
        None \<Rightarrow> throw (NameError ''db'') s
      | Some pool \<Rightarrow>
          and_then
            (with_stmt (connect env pool) close (\<lambda>conn.
               and_then (execute env conn ''SELECT id, name from pets;'') (\<lambda>res.
               let pets_result = fetchall res in
               (\<lambda>s'. (append_rows pets_result pets, s')))))
            (\<lambda>pets'. and_then (\<lambda>s'. (jsonify pets', s')) (\<lambda>doc. ret (doc, 200)))
            s)"

text \<open>
  The first request of a process, as the two decorators declare it: the hook runs, and
  the view runs after it unless the hook raised.
\<close>

definition serve_first_request :: "env \<Rightarrow> (json \<times> nat) prog" where
  "serve_first_request env = and_then (create_connection env) (\<lambda>_. get_pets env)"

section \<open>Vocabulary of the statements\<close>

text \<open>The library calls a computation makes when it is started in state \<open>s\<close>.\<close>

definition calls_made :: "'a prog \<Rightarrow> state \<Rightarrow> event list" where
  "calls_made m s = drop (length (trace s)) (trace (snd (m s)))"

text \<open>
  Connections handed out by the pool and connections returned to it, counted in a trace,
  and the statements sent to the database, in order.
\<close>

definition acquired :: "event list \<Rightarrow> nat" where
  "acquired evs = count_list evs (Connect, True)"

definition released :: "event list \<Rightarrow> nat" where
  "released evs = count_list evs (Close, True)"

fun statements :: "event list \<Rightarrow> string list" where
  "statements [] = []"
| "statements ((Execute statement, ok) # evs) = statement # statements evs"
| "statements (ev # evs) = statements evs"

text \<open>
  The addressing convention of the secret store, as the interface description words it:
  \<open>projects/{PROJECT_ID}/secrets/{key}/versions/latest\<close> for the four fixed keys.
\<close>

definition secret_resource_name :: "string option \<Rightarrow> string \<Rightarrow> string" where
  "secret_resource_name project key =
     ''projects/'' @ py_format project @ ''/secrets/'' @ key @ ''/versions/latest''"

definition secret_keys :: "string list" where
  "secret_keys =
     [''db_user_secret'', ''db_password_secret'', ''db_name_secret'',
      ''cloud_sql_connection_name_secret'']"


text \<open>The calls of a run in which the client is built and all four secrets are read.\<close>

definition fetch_calls :: "env \<Rightarrow> event list" where
  "fetch_calls env =
     [(NewSecretClient, True),
      (AccessSecretVersion (db_user_secret env), True),
      (AccessSecretVersion (db_password_secret env), True),
      (AccessSecretVersion (db_name_secret env), True),
      (AccessSecretVersion (cloud_sql_conn_name_secret env), True)]"

text \<open>The shape \<open>{id: integer, name: string}\<close> of the interface table.\<close>

fun is_pet_object :: "json \<Rightarrow> bool" where
  "is_pet_object (JObject [(k1, JNumber n), (k2, JString t)]) = (k1 = ''id'' \<and> k2 = ''name'')"
| "is_pet_object _ = False"

section \<open>Concrete inputs\<close>

text \<open>
  A project \<open>demo\<close> whose four secrets hold the ASCII texts \<open>root\<close>, \<open>pw\<close>, \<open>zoo\<close> and
  \<open>p:r:i\<close>, a decoder that decodes an ASCII payload as UTF-8 does and rejects every
  other payload (of the payloads used below only the byte \<open>0xff\<close>, which UTF-8 rejects
  too), and a database whose \<open>pets\<close> table holds Rex and Whiskers.
\<close>

definition ascii_decode :: "string \<Rightarrow> bytes \<Rightarrow> error + string" where
  "ascii_decode codec data =
     (if codec = ''UTF-8'' \<and> list_all (\<lambda>b. b < 128) data
      then Inr (map (\<lambda>b. char_of (unat b)) data)
      else Inl (Raised ''UnicodeDecodeError''))"

definition demo_store :: "string \<Rightarrow> error + bytes" where
  "demo_store name =
     (if name = ''projects/demo/secrets/db_user_secret/versions/latest''
        then Inr [0x72, 0x6f, 0x6f, 0x74]
      else if name = ''projects/demo/secrets/db_password_secret/versions/latest''
        then Inr [0x70, 0x77]
      else if name = ''projects/demo/secrets/db_name_secret/versions/latest''
        then Inr [0x7a, 0x6f, 0x6f]
      else if name = ''projects/demo/secrets/cloud_sql_connection_name_secret/versions/latest''
        then Inr [0x70, 0x3a, 0x72, 0x3a, 0x69]
      else Inl (Raised ''NotFound''))"

definition demo_rows :: "row list" where
  "demo_rows = [[PyInt 1, PyStr ''Rex''], [PyInt 2, PyStr ''Whiskers'']]"

definition demo_env :: env where
  "demo_env =
     \<lparr>PROJECT_ID = Some ''demo'',
      client_error = None,
      secret_store = demo_store,
      bytes_decode = ascii_decode,
      engine_error = (\<lambda>u kwargs. None),
      checkout_error = (\<lambda>pool. None),
      database_answer = (\<lambda>statement.
        if statement = ''SELECT id, name from pets;'' then Inr demo_rows
        else Inl (Raised ''ProgrammingError''))\<rparr>"

definition demo_pool :: engine where
  "demo_pool =
     \<lparr>engine_url =
        \<lparr>drivername = ''mysql+pymysql'', username = ''root'', password = ''pw'',
         database = ''zoo'', query = [(''unix_socket'', ''/cloudsql/p:r:i'')]\<rparr>,
      engine_kwargs =
        [(''pool_size'', 5), (''max_overflow'', 2), (''pool_timeout'', 30),
         (''pool_recycle'', 1800)]\<rparr>"

definition no_request :: http_request where
  "no_request = \<lparr>request_args = [], request_headers = [], request_data = []\<rparr>"

text \<open>The state before the hook has run, and the state once \<open>db\<close> holds the pool.\<close>

definition fresh :: state where
  "fresh = \<lparr>db = None, request = no_request, trace = []\<rparr>"

definition ready :: state where
  "ready = \<lparr>db = Some demo_pool, request = no_request, trace = []\<rparr>"

text \<open>
  Three variations: a pool that times out on checkout, a database that rejects the
  statement, and a \<open>pets\<close> table whose only row has a NULL name.
\<close>

definition exhausted_env :: env where
  "exhausted_env = demo_env\<lparr>checkout_error := (\<lambda>pool. Some (Raised ''TimeoutError''))\<rparr>"

definition broken_query_env :: env where
  "broken_query_env =
     demo_env\<lparr>database_answer := (\<lambda>statement. Inl (Raised ''OperationalError''))\<rparr>"

definition null_name_env :: env where
  "null_name_env = demo_env\<lparr>database_answer := (\<lambda>statement. Inr [[PyInt 3, PyNone]])\<rparr>"

text \<open>A secret store without the password secret.\<close>

definition missing_secret_env :: env where
  "missing_secret_env =
     demo_env\<lparr>secret_store := (\<lambda>name.
       if name = ''projects/demo/secrets/db_password_secret/versions/latest''
       then Inl (Raised ''NotFound'') else demo_store name)\<rparr>"

text \<open>
  A \<open>pets\<close> table whose name column is binary, and a secret store whose user secret is
  the single byte \<open>0xff\<close>, which no UTF-8 text contains.
\<close>

definition blob_name_env :: env where
  "blob_name_env =
     demo_env\<lparr>database_answer := (\<lambda>statement. Inr [[PyInt 4, PyBytes [0x52, 0x65, 0x78]]])\<rparr>"


definition other_request :: http_request where
  "other_request =
     \<lparr>request_args = [(''id'', ''7'')], request_headers = [(''Accept'', ''text/html'')],
      request_data = [0x7b, 0x7d]\<rparr>"

section \<open>How the loop and the handler run\<close>

lemma append_rows_Inr_iff:
  "append_rows rows pets = Inr out \<longleftrightarrow>
     (\<forall>row\<in>set rows. 2 \<le> length row) \<and>
     out = pets @ map (\<lambda>row. [(''id'', row ! 0), (''name'', row ! 1)]) rows"
  by (induction rows arbitrary: pets) (auto simp: getitem_def)

lemma json_value_raises:
  "json_value v = Inl e \<Longrightarrow> e = TypeError"
  by (cases v) auto

lemma json_array_pets:
  "json_array (map (\<lambda>row. [(''id'', row ! 0), (''name'', row ! 1)]) rows) = Inr objs \<longleftrightarrow>
     length objs = length rows \<and>
     (\<forall>i<length rows. \<exists>a b.
        json_value (rows ! i ! 0) = Inr a \<and> json_value (rows ! i ! 1) = Inr b \<and>
        objs ! i = JObject [(''id'', a), (''name'', b)])"
proof (induction rows arbitrary: objs)
  case Nil
  then show ?case by auto
next
  case (Cons row rows)
  show ?case
  proof (cases objs)
    case Nil
    then show ?thesis by (auto split: sum.splits)
  next
    case (Cons obj rest)
    then show ?thesis
      using Cons.IH [of rest]
      by (auto simp: All_less_Suc2 split: sum.splits)
  qed
qed

lemma json_array_raises:
  "json_array (map (\<lambda>row. [(''id'', row ! 0), (''name'', row ! 1)]) rows) = Inl e \<Longrightarrow>
   e = TypeError"
  by (induction rows) (auto dest: json_value_raises split: sum.splits)

lemma json_array_pets_returns:
  "(\<exists>objs. json_array (map (\<lambda>row. [(''id'', row ! 0), (''name'', row ! 1)]) rows) = Inr objs) \<longleftrightarrow>
     (\<forall>row\<in>set rows. returned (json_value (row ! 0)) \<and> returned (json_value (row ! 1)))"
proof (induction rows)
  case Nil
  then show ?case by simp
next
  case (Cons row rows)
  have "(\<exists>objs. json_array (map (\<lambda>row. [(''id'', row ! 0), (''name'', row ! 1)]) (row # rows)) =
        Inr objs) \<longleftrightarrow>
      returned (json_value (row ! 0)) \<and> returned (json_value (row ! 1)) \<and>
      (\<exists>objs. json_array (map (\<lambda>row. [(''id'', row ! 0), (''name'', row ! 1)]) rows) = Inr objs)"
    by (auto simp: returned_def split: sum.splits)
  then show ?case
    using Cons.IH by simp
qed

lemma json_array_pets_raises:
  "json_array (map (\<lambda>row. [(''id'', row ! 0), (''name'', row ! 1)]) rows) = Inl e \<longleftrightarrow>
     e = TypeError \<and>
     (\<exists>row\<in>set rows. \<not> returned (json_value (row ! 0)) \<or> \<not> returned (json_value (row ! 1)))"
proof (cases "json_array (map (\<lambda>row. [(''id'', row ! 0), (''name'', row ! 1)]) rows)")
  case (Inl e')
  then have "e' = TypeError"
    by (rule json_array_raises)
  moreover have "\<not> (\<forall>row\<in>set rows.
      returned (json_value (row ! 0)) \<and> returned (json_value (row ! 1)))"
    using Inl json_array_pets_returns [of rows] by simp
  ultimately show ?thesis
    using Inl by auto
next
  case (Inr objs)
  then have "\<forall>row\<in>set rows. returned (json_value (row ! 0)) \<and> returned (json_value (row ! 1))"
    using json_array_pets_returns [of rows] by blast
  then show ?thesis
    using Inr by auto
qed

lemma get_pets_unassigned:
  "db s = None \<Longrightarrow> get_pets env s = (Inl (NameError ''db''), s)"
  by (simp add: get_pets_def throw_def)

lemma get_pets_checkout_fails:
  "db s = Some pool \<Longrightarrow> checkout_error env pool = Some e \<Longrightarrow>
   get_pets env s = (Inl e, s\<lparr>trace := trace s @ [(Connect, False)]\<rparr>)"
  by (simp add: get_pets_def and_then_def with_stmt_def connect_def library_call_def
      outcome_def returned_def)

lemma get_pets_query_fails:
  "db s = Some pool \<Longrightarrow> checkout_error env pool = None \<Longrightarrow>
   database_answer env ''SELECT id, name from pets;'' = Inl e \<Longrightarrow>
   get_pets env s =
     (Inl e, s\<lparr>trace := trace s @
        [(Connect, True), (Execute ''SELECT id, name from pets;'', False), (Close, True)]\<rparr>)"
  by (simp add: get_pets_def and_then_def with_stmt_def connect_def execute_def close_def
      library_call_def outcome_def returned_def)

lemma get_pets_query_answers:
  "db s = Some pool \<Longrightarrow> checkout_error env pool = None \<Longrightarrow>
   database_answer env ''SELECT id, name from pets;'' = Inr rows \<Longrightarrow>
   get_pets env s =
     ((case append_rows rows [] of
         Inl e \<Rightarrow> Inl e
       | Inr pets \<Rightarrow> (case jsonify pets of Inl e \<Rightarrow> Inl e | Inr doc \<Rightarrow> Inr (doc, 200))),
      s\<lparr>trace := trace s @
        [(Connect, True), (Execute ''SELECT id, name from pets;'', True), (Close, True)]\<rparr>)"
  by (simp add: get_pets_def and_then_def with_stmt_def connect_def execute_def close_def
      library_call_def outcome_def returned_def ret_def split: sum.splits)

lemma calls_made_run:
  "m s = (r, s\<lparr>trace := trace s @ evs\<rparr>) \<Longrightarrow> calls_made m s = evs"
  by (simp add: calls_made_def)

lemma calls_made_idle:
  "m s = (r, s) \<Longrightarrow> calls_made m s = []"
  by (simp add: calls_made_def)

lemma get_pets_calls:
  "calls_made (get_pets env) s =
     (case db s of
        None \<Rightarrow> []
      | Some pool \<Rightarrow>
          (case checkout_error env pool of
             Some e \<Rightarrow> [(Connect, False)]
           | None \<Rightarrow>
               [(Connect, True),
                (Execute ''SELECT id, name from pets;'',
                 returned (database_answer env ''SELECT id, name from pets;'')),
                (Close, True)]))"
proof (cases "db s")
  case None
  then show ?thesis by (simp add: calls_made_idle [OF get_pets_unassigned])
next
  case (Some pool)
  show ?thesis
  proof (cases "checkout_error env pool")
    case e: (Some e)
    show ?thesis using Some e by (simp add: calls_made_run [OF get_pets_checkout_fails])
  next
    case None
    show ?thesis
    proof (cases "database_answer env ''SELECT id, name from pets;''")
      case (Inl e)
      then show ?thesis using Some None
        by (simp add: calls_made_run [OF get_pets_query_fails] returned_def)
    next
      case (Inr rows)
      then show ?thesis using Some None
        by (simp add: calls_made_run [OF get_pets_query_answers] returned_def)
    qed
  qed
qed

lemma get_pets_state:
  "snd (get_pets env s) = s\<lparr>trace := trace s @ calls_made (get_pets env) s\<rparr>"
proof (cases "db s")
  case None
  then show ?thesis by (simp add: calls_made_idle [OF get_pets_unassigned] get_pets_unassigned)
next
  case (Some pool)
  show ?thesis
  proof (cases "checkout_error env pool")
    case e: (Some e)
    show ?thesis using Some e by (simp add: calls_made_def get_pets_checkout_fails)
  next
    case None
    show ?thesis
    proof (cases "database_answer env ''SELECT id, name from pets;''")
      case (Inl e)
      then show ?thesis using Some None
        by (simp add: calls_made_def get_pets_query_fails)
    next
      case (Inr rows)
      then show ?thesis using Some None
        by (simp add: calls_made_def get_pets_query_answers)
    qed
  qed
qed

lemma get_pets_result_db:
  assumes "db s = db s'"
  shows "fst (get_pets env s) = fst (get_pets env s')"
proof (cases "db s'")
  case None
  then show ?thesis using assms by (simp add: get_pets_unassigned)
next
  case (Some pool)
  show ?thesis
  proof (cases "checkout_error env pool")
    case e: (Some e)
    show ?thesis using Some e assms by (simp add: get_pets_checkout_fails)
  next
    case None
    show ?thesis
    proof (cases "database_answer env ''SELECT id, name from pets;''")
      case (Inl e)
      then show ?thesis using Some None assms by (simp add: get_pets_query_fails)
    next
      case (Inr rows)
      then show ?thesis using Some None assms by (simp add: get_pets_query_answers)
    qed
  qed
qed

lemma get_pets_Inr:
  assumes "fst (get_pets env s) = Inr resp"
  shows "\<exists>pool rows objs. db s = Some pool \<and> checkout_error env pool = None \<and>
           database_answer env ''SELECT id, name from pets;'' = Inr rows \<and>
           (\<forall>row\<in>set rows. 2 \<le> length row) \<and>
           resp = (JArray objs, 200) \<and> length objs = length rows \<and>
           (\<forall>i<length rows. \<exists>a b.
              json_value (rows ! i ! 0) = Inr a \<and> json_value (rows ! i ! 1) = Inr b \<and>
              objs ! i = JObject [(''id'', a), (''name'', b)])"
proof (cases "db s")
  case None
  then show ?thesis using assms by (simp add: get_pets_unassigned)
next
  case (Some pool)
  show ?thesis
  proof (cases "checkout_error env pool")
    case e: (Some e)
    show ?thesis using Some e assms by (simp add: get_pets_checkout_fails)
  next
    case None
    show ?thesis
    proof (cases "database_answer env ''SELECT id, name from pets;''")
      case (Inl e)
      then show ?thesis using Some None assms by (simp add: get_pets_query_fails)
    next
      case (Inr rows)
      from Inr Some None assms obtain pets objs where
        p: "append_rows rows [] = Inr pets" and j: "json_array pets = Inr objs"
        and r: "resp = (JArray objs, 200)"
        by (auto simp: get_pets_query_answers jsonify_def split: sum.splits)
      from p have two: "\<forall>row\<in>set rows. 2 \<le> length row"
        and pets: "pets = map (\<lambda>row. [(''id'', row ! 0), (''name'', row ! 1)]) rows"
        by (simp_all add: append_rows_Inr_iff)
      from j [unfolded pets] have "length objs = length rows \<and>
          (\<forall>i<length rows. \<exists>a b.
             json_value (rows ! i ! 0) = Inr a \<and> json_value (rows ! i ! 1) = Inr b \<and>
             objs ! i = JObject [(''id'', a), (''name'', b)])"
        by (rule json_array_pets [THEN iffD1])
      with Some None Inr two r show ?thesis by blast
    qed
  qed
qed

lemma demo_ready_facts:
  "db ready = Some demo_pool"
  "checkout_error demo_env demo_pool = None"
  "database_answer demo_env ''SELECT id, name from pets;'' = Inr demo_rows"
  "\<forall>row\<in>set demo_rows. 2 \<le> length row"
  by (simp_all add: ready_def demo_env_def demo_rows_def)

lemma demo_response:
  "fst (get_pets demo_env ready) =
     Inr (JArray [JObject [(''id'', JNumber 1), (''name'', JString ''Rex'')],
                  JObject [(''id'', JNumber 2), (''name'', JString ''Whiskers'')]], 200)"
  by (simp add: get_pets_query_answers [OF demo_ready_facts(1-3)] demo_rows_def getitem_def
      jsonify_def)

section \<open>The response of GET /\<close>

text \<open>
  C1, as the claim states it, fails: the rows go through \<open>jsonify\<close>, which raises on a
  value the encoder cannot serialise. For a \<open>pets\<close> table whose name column is binary
  the query returns a row, and the handler raises \<open>TypeError\<close> instead of returning
  status 200.
\<close>

theorem get_pets_returns_rows_counterexample:
  "database_answer blob_name_env ''SELECT id, name from pets;'' =
     Inr [[PyInt 4, PyBytes [0x52, 0x65, 0x78]]] \<and>
   fst (get_pets blob_name_env ready) = Inl TypeError"
proof -
  have "db ready = Some demo_pool"
    by (simp add: ready_def)
  moreover have "checkout_error blob_name_env demo_pool = None"
    by (simp add: blob_name_env_def demo_env_def)
  moreover have "database_answer blob_name_env ''SELECT id, name from pets;'' =
      Inr [[PyInt 4, PyBytes [0x52, 0x65, 0x78]]]"
    by (simp add: blob_name_env_def)
  ultimately show ?thesis
    by (simp add: get_pets_query_answers getitem_def jsonify_def)
qed

text \<open>
  C1, amended. Let the pool hand out a connection and the database answer the fixed query
  \<open>SELECT id, name from pets;\<close> with a sequence of rows, each with its two columns. If
  the JSON encoder can render the id and the name of every row, \<open>get_pets\<close> returns
  status 200 and a JSON array that has one object per row, in the order of the rows, the
  i-th object being \<open>{id: rows[i][0], name: rows[i][1]}\<close> as the encoder renders the two
  values; an empty result set gives status 200 and the empty array. If the encoder
  cannot render some id or name, \<open>get_pets\<close> raises \<open>TypeError\<close> and returns nothing.
\<close>

theorem get_pets_returns_rows:
  assumes "db s = Some pool"
    and "checkout_error env pool = None"
    and "database_answer env ''SELECT id, name from pets;'' = Inr rows"
    and "\<forall>row\<in>set rows. 2 \<le> length row"
  shows "((\<forall>row\<in>set rows. returned (json_value (row ! 0)) \<and> returned (json_value (row ! 1))) \<longrightarrow>
           (\<exists>objs. fst (get_pets env s) = Inr (JArray objs, 200) \<and>
              length objs = length rows \<and>
              (\<forall>i<length rows. \<exists>a b.
                 json_value (rows ! i ! 0) = Inr a \<and> json_value (rows ! i ! 1) = Inr b \<and>
                 objs ! i = JObject [(''id'', a), (''name'', b)]) \<and>
              (rows = [] \<longrightarrow> objs = []))) \<and>
         ((\<exists>row\<in>set rows. \<not> returned (json_value (row ! 0)) \<or>
                            \<not> returned (json_value (row ! 1))) \<longrightarrow>
           fst (get_pets env s) = Inl TypeError)"
proof -
  let ?pets = "map (\<lambda>row. [(''id'', row ! 0), (''name'', row ! 1)]) rows"
  have "append_rows rows [] = Inr ?pets"
    using assms(4) by (simp add: append_rows_Inr_iff)
  then have run: "fst (get_pets env s) =
      (case json_array ?pets of Inl e \<Rightarrow> Inl e | Inr objs \<Rightarrow> Inr (JArray objs, 200))"
    using assms(1-3) by (simp add: get_pets_query_answers jsonify_def split: sum.splits)
  show ?thesis
  proof (intro conjI impI)
    assume "\<forall>row\<in>set rows. returned (json_value (row ! 0)) \<and> returned (json_value (row ! 1))"
    then obtain objs where objs: "json_array ?pets = Inr objs"
      using json_array_pets_returns [of rows] by blast
    from objs have "length objs = length rows \<and>
        (\<forall>i<length rows. \<exists>a b.
           json_value (rows ! i ! 0) = Inr a \<and> json_value (rows ! i ! 1) = Inr b \<and>
           objs ! i = JObject [(''id'', a), (''name'', b)])"
      by (rule json_array_pets [THEN iffD1])
    moreover have "fst (get_pets env s) = Inr (JArray objs, 200)"
      using run objs by simp
    ultimately show "\<exists>objs. fst (get_pets env s) = Inr (JArray objs, 200) \<and>
        length objs = length rows \<and>
        (\<forall>i<length rows. \<exists>a b.
           json_value (rows ! i ! 0) = Inr a \<and> json_value (rows ! i ! 1) = Inr b \<and>
           objs ! i = JObject [(''id'', a), (''name'', b)]) \<and>
        (rows = [] \<longrightarrow> objs = [])"
      by auto
  next
    assume "\<exists>row\<in>set rows. \<not> returned (json_value (row ! 0)) \<or>
        \<not> returned (json_value (row ! 1))"
    then have "json_array ?pets = Inl TypeError"
      by (rule json_array_pets_raises [THEN iffD2, OF conjI [OF refl]])
    then show "fst (get_pets env s) = Inl TypeError"
      using run by simp
  qed
qed

theorem get_pets_returns_rows_witness:
  "\<exists>objs. fst (get_pets demo_env ready) = Inr (JArray objs, 200) \<and>
     length objs = 2 \<and>
     objs ! 0 = JObject [(''id'', JNumber 1), (''name'', JString ''Rex'')] \<and>
     objs ! 1 = JObject [(''id'', JNumber 2), (''name'', JString ''Whiskers'')]"
proof -
  have "\<forall>row\<in>set demo_rows. returned (json_value (row ! 0)) \<and> returned (json_value (row ! 1))"
    by (simp add: demo_rows_def returned_def)
  with get_pets_returns_rows [OF demo_ready_facts]
  obtain objs where o: "fst (get_pets demo_env ready) = Inr (JArray objs, 200)"
      "length objs = length demo_rows"
      "\<forall>i<length demo_rows. \<exists>a b.
         json_value (demo_rows ! i ! 0) = Inr a \<and> json_value (demo_rows ! i ! 1) = Inr b \<and>
         objs ! i = JObject [(''id'', a), (''name'', b)]"
    by blast
  have "objs ! 0 = JObject [(''id'', JNumber 1), (''name'', JString ''Rex'')]"
    using o(3) by (auto simp: demo_rows_def)
  moreover have "objs ! 1 = JObject [(''id'', JNumber 2), (''name'', JString ''Whiskers'')]"
    using o(3) by (auto simp: demo_rows_def)
  moreover have "length objs = 2"
    using o(2) by (simp add: demo_rows_def)
  ultimately show ?thesis using o(1) by blast
qed

text \<open>
  C5, as the claim states it, fails: the handler copies the two columns into the object
  without looking at their types, so a row whose name is NULL gives an object whose
  \<open>name\<close> is \<open>null\<close>, not a string.
\<close>

theorem pet_object_types_counterexample:
  "fst (get_pets null_name_env ready) =
     Inr (JArray [JObject [(''id'', JNumber 3), (''name'', JNull)]], 200) \<and>
   \<not> is_pet_object (JObject [(''id'', JNumber 3), (''name'', JNull)])"
proof -
  have "db ready = Some demo_pool"
    by (simp add: ready_def)
  moreover have "checkout_error null_name_env demo_pool = None"
    by (simp add: null_name_env_def demo_env_def)
  moreover have "database_answer null_name_env ''SELECT id, name from pets;'' =
      Inr [[PyInt 3, PyNone]]"
    by (simp add: null_name_env_def)
  ultimately show ?thesis
    by (simp add: get_pets_query_answers getitem_def jsonify_def)
qed

text \<open>
  C5, amended. Every response of \<open>get_pets\<close> is a JSON array with one object per row the
  database answered; every object has exactly the two keys \<open>id\<close> and \<open>name\<close>, in this
  order, and their values are what the encoder renders for the first and the second
  column of the corresponding row. In particular \<open>id\<close> is the integer \<open>n\<close> whenever the
  first column is the integer \<open>n\<close>, and \<open>name\<close> is the string \<open>t\<close> whenever the second
  column is the text \<open>t\<close>.
\<close>

theorem pet_objects_mirror_rows:
  assumes "fst (get_pets env s) = Inr (doc, status)"
  shows "\<exists>rows objs. database_answer env ''SELECT id, name from pets;'' = Inr rows \<and>
           doc = JArray objs \<and> length objs = length rows \<and>
           (\<forall>i<length objs. \<exists>a b.
              objs ! i = JObject [(''id'', a), (''name'', b)] \<and>
              json_value (rows ! i ! 0) = Inr a \<and> json_value (rows ! i ! 1) = Inr b \<and>
              (\<forall>n. rows ! i ! 0 = PyInt n \<longrightarrow> a = JNumber n) \<and>
              (\<forall>t. rows ! i ! 1 = PyStr t \<longrightarrow> b = JString t))"
proof -
  from get_pets_Inr [OF assms] obtain rows objs where
    r: "database_answer env ''SELECT id, name from pets;'' = Inr rows"
    and d: "doc = JArray objs" and l: "length objs = length rows"
    and o: "\<forall>i<length rows. \<exists>a b.
        json_value (rows ! i ! 0) = Inr a \<and> json_value (rows ! i ! 1) = Inr b \<and>
        objs ! i = JObject [(''id'', a), (''name'', b)]"
    by auto
  have "\<exists>a b. objs ! i = JObject [(''id'', a), (''name'', b)] \<and>
      json_value (rows ! i ! 0) = Inr a \<and> json_value (rows ! i ! 1) = Inr b \<and>
      (\<forall>n. rows ! i ! 0 = PyInt n \<longrightarrow> a = JNumber n) \<and>
      (\<forall>t. rows ! i ! 1 = PyStr t \<longrightarrow> b = JString t)"
    if "i < length objs" for i
  proof -
    from that l o obtain a b where
      ab: "json_value (rows ! i ! 0) = Inr a" "json_value (rows ! i ! 1) = Inr b"
        "objs ! i = JObject [(''id'', a), (''name'', b)]"
      by auto
    then show ?thesis by auto
  qed
  with r d l show ?thesis by blast
qed

theorem pet_objects_mirror_rows_witness:
  "\<exists>rows objs. database_answer demo_env ''SELECT id, name from pets;'' = Inr rows \<and>
     JArray [JObject [(''id'', JNumber 1), (''name'', JString ''Rex'')],
             JObject [(''id'', JNumber 2), (''name'', JString ''Whiskers'')]] = JArray objs \<and>
     length objs = length rows \<and>
     (\<forall>i<length objs. \<exists>a b.
        objs ! i = JObject [(''id'', a), (''name'', b)] \<and>
        json_value (rows ! i ! 0) = Inr a \<and> json_value (rows ! i ! 1) = Inr b \<and>
        (\<forall>n. rows ! i ! 0 = PyInt n \<longrightarrow> a = JNumber n) \<and>
        (\<forall>t. rows ! i ! 1 = PyStr t \<longrightarrow> b = JString t))"
  by (rule pet_objects_mirror_rows [OF demo_response])

section \<open>The handler and the request\<close>

text \<open>
  C9. \<open>get_pets\<close> reads nothing of the request: run on a state that differs only in the
  request it gives the same result and makes the same calls, and it leaves the request
  as it was. Two invocations, in whatever states and environments, in which the pool
  hands out a connection and the query yields the same rows return the same status and
  the same JSON document.
\<close>

theorem get_pets_ignores_request:
  "(db sa = Some poola \<and> checkout_error enva poola = None \<and>
    db sb = Some poolb \<and> checkout_error envb poolb = None \<and>
    database_answer enva ''SELECT id, name from pets;'' = Inr rows \<and>
    database_answer envb ''SELECT id, name from pets;'' = Inr rows \<longrightarrow>
      fst (get_pets enva sa) = fst (get_pets envb sb)) \<and>
   get_pets env (s\<lparr>request := r\<rparr>) =
     (fst (get_pets env s), (snd (get_pets env s))\<lparr>request := r\<rparr>) \<and>
   request (snd (get_pets env s)) = request s"
proof (intro conjI impI)
  assume "db sa = Some poola \<and> checkout_error enva poola = None \<and>
    db sb = Some poolb \<and> checkout_error envb poolb = None \<and>
    database_answer enva ''SELECT id, name from pets;'' = Inr rows \<and>
    database_answer envb ''SELECT id, name from pets;'' = Inr rows"
  then show "fst (get_pets enva sa) = fst (get_pets envb sb)"
    by (simp add: get_pets_query_answers)
next
  have "fst (get_pets env (s\<lparr>request := r\<rparr>)) = fst (get_pets env s)"
    by (rule get_pets_result_db) simp
  moreover have "snd (get_pets env (s\<lparr>request := r\<rparr>)) = (snd (get_pets env s))\<lparr>request := r\<rparr>"
    by (simp add: get_pets_state get_pets_calls)
  ultimately show "get_pets env (s\<lparr>request := r\<rparr>) =
     (fst (get_pets env s), (snd (get_pets env s))\<lparr>request := r\<rparr>)"
    by (simp add: prod_eq_iff)
next
  show "request (snd (get_pets env s)) = request s"
    by (simp add: get_pets_state)
qed

theorem get_pets_ignores_request_witness:
  "fst (get_pets demo_env ready) =
     fst (get_pets (demo_env\<lparr>PROJECT_ID := None\<rparr>) (ready\<lparr>request := other_request\<rparr>)) \<and>
   get_pets demo_env (ready\<lparr>request := other_request\<rparr>) =
     (fst (get_pets demo_env ready), (snd (get_pets demo_env ready))\<lparr>request := other_request\<rparr>)"
proof -
  have "db (ready\<lparr>request := other_request\<rparr>) = Some demo_pool"
    by (simp add: ready_def)
  moreover have "checkout_error (demo_env\<lparr>PROJECT_ID := None\<rparr>) demo_pool = None"
    by (simp add: demo_env_def)
  moreover have "database_answer (demo_env\<lparr>PROJECT_ID := None\<rparr>) ''SELECT id, name from pets;'' =
      Inr demo_rows"
    by (simp add: demo_env_def)
  ultimately show ?thesis
    using get_pets_ignores_request [where sa = ready and poola = demo_pool and enva = demo_env
        and sb = "ready\<lparr>request := other_request\<rparr>" and poolb = demo_pool
        and envb = "demo_env\<lparr>PROJECT_ID := None\<rparr>" and rows = demo_rows
        and env = demo_env and s = ready and r = other_request]
      demo_ready_facts(1-3)
    by blast
qed

section \<open>Connections and statements of one invocation\<close>

text \<open>
  C4. In every invocation of \<open>get_pets\<close>, whatever the environment answers, as many
  connections are returned to the pool as were handed out, and when one was handed out
  the return is the last call of the invocation. In particular, when the query raises,
  the exception leaves \<open>get_pets\<close> after the connection has been closed.
\<close>

theorem connection_released_on_every_path:
  "released (calls_made (get_pets env) s) = acquired (calls_made (get_pets env) s) \<and>
   (acquired (calls_made (get_pets env) s) \<noteq> 0 \<longrightarrow>
      last (calls_made (get_pets env) s) = (Close, True)) \<and>
   (db s = Some pool \<and> checkout_error env pool = None \<and>
    database_answer env ''SELECT id, name from pets;'' = Inl e \<longrightarrow>
      fst (get_pets env s) = Inl e \<and>
      calls_made (get_pets env) s =
        [(Connect, True), (Execute ''SELECT id, name from pets;'', False), (Close, True)])"
  by (auto simp: get_pets_calls acquired_def released_def get_pets_query_fails returned_def
      split: option.splits)

theorem connection_released_on_every_path_witness:
  "fst (get_pets broken_query_env ready) = Inl (Raised ''OperationalError'') \<and>
   calls_made (get_pets broken_query_env) ready =
     [(Connect, True), (Execute ''SELECT id, name from pets;'', False), (Close, True)] \<and>
   acquired (calls_made (get_pets broken_query_env) ready) = 1 \<and>
   released (calls_made (get_pets broken_query_env) ready) = 1"
proof -
  have h: "db ready = Some demo_pool \<and> checkout_error broken_query_env demo_pool = None \<and>
      database_answer broken_query_env ''SELECT id, name from pets;'' =
        Inl (Raised ''OperationalError'')"
    by (simp add: ready_def broken_query_env_def demo_env_def)
  from connection_released_on_every_path
    [of broken_query_env ready demo_pool "Raised ''OperationalError''"] h
  have c: "released (calls_made (get_pets broken_query_env) ready) =
        acquired (calls_made (get_pets broken_query_env) ready)"
    and r: "fst (get_pets broken_query_env ready) = Inl (Raised ''OperationalError'')"
    and t: "calls_made (get_pets broken_query_env) ready =
        [(Connect, True), (Execute ''SELECT id, name from pets;'', False), (Close, True)]"
    by blast+
  have "acquired (calls_made (get_pets broken_query_env) ready) = 1"
    by (simp add: t acquired_def)
  with c r t show ?thesis by simp
qed

text \<open>
  C10, as the claim states it, fails: when the pool hands out no connection (the checkout
  times out), the invocation acquires no connection and executes no statement.
\<close>

theorem one_connection_one_statement_counterexample:
  "fst (get_pets exhausted_env ready) = Inl (Raised ''TimeoutError'') \<and>
   \<not> (acquired (calls_made (get_pets exhausted_env) ready) = 1 \<and>
      length (statements (calls_made (get_pets exhausted_env) ready)) = 1)"
proof -
  have "db ready = Some demo_pool"
    by (simp add: ready_def)
  moreover have "checkout_error exhausted_env demo_pool = Some (Raised ''TimeoutError'')"
    by (simp add: exhausted_env_def)
  ultimately show ?thesis
    by (simp add: get_pets_checkout_fails get_pets_calls acquired_def)
qed

text \<open>
  C10, amended. An invocation of \<open>get_pets\<close> to which the pool hands out a connection
  acquires exactly one connection and executes exactly one statement, the fixed query,
  however many rows the database returns and also when the database rejects the query.
  An invocation that finds \<open>db\<close> unassigned or whose checkout fails acquires no
  connection and executes no statement. No invocation makes any other call than
  \<open>connect\<close>, \<open>execute\<close> of the fixed query and \<open>close\<close>.
\<close>

theorem one_connection_one_statement:
  "(db s = Some pool \<and> checkout_error env pool = None \<longrightarrow>
      acquired (calls_made (get_pets env) s) = 1 \<and>
      statements (calls_made (get_pets env) s) = [''SELECT id, name from pets;'']) \<and>
   (db s = None \<or> (\<exists>p. db s = Some p \<and> checkout_error env p \<noteq> None) \<longrightarrow>
      acquired (calls_made (get_pets env) s) = 0 \<and>
      statements (calls_made (get_pets env) s) = []) \<and>
   fst ` set (calls_made (get_pets env) s)
     \<subseteq> {Connect, Execute ''SELECT id, name from pets;'', Close}"
  by (auto simp: get_pets_calls acquired_def split: option.splits)

theorem one_connection_one_statement_witness:
  "acquired (calls_made (get_pets demo_env) ready) = 1 \<and>
   statements (calls_made (get_pets demo_env) ready) = [''SELECT id, name from pets;''] \<and>
   acquired (calls_made (get_pets demo_env) fresh) = 0 \<and>
   statements (calls_made (get_pets demo_env) fresh) = []"
proof -
  have "db fresh = None"
    by (simp add: fresh_def)
  then show ?thesis
    using one_connection_one_statement [of ready demo_pool demo_env]
      one_connection_one_statement [of fresh demo_pool demo_env] demo_ready_facts(1,2)
    by blast
qed

section \<open>How initialisation runs\<close>

lemma init_connection_engine_run:
  "init_connection_engine env s =
    (case client_error env of
       Some e \<Rightarrow> (Inl e, s\<lparr>trace := trace s @ [(NewSecretClient, False)]\<rparr>)
     | None \<Rightarrow>
    (case secret_store env (db_user_secret env) of
       Inl e \<Rightarrow>
         (Inl e, s\<lparr>trace := trace s @
            [(NewSecretClient, True),
             (AccessSecretVersion (db_user_secret env), False)]\<rparr>)
     | Inr user_data \<Rightarrow>
    (case secret_store env (db_password_secret env) of
       Inl e \<Rightarrow>
         (Inl e, s\<lparr>trace := trace s @
            [(NewSecretClient, True),
             (AccessSecretVersion (db_user_secret env), True),
             (AccessSecretVersion (db_password_secret env), False)]\<rparr>)
     | Inr password_data \<Rightarrow>
    (case secret_store env (db_name_secret env) of
       Inl e \<Rightarrow>
         (Inl e, s\<lparr>trace := trace s @
            [(NewSecretClient, True),
             (AccessSecretVersion (db_user_secret env), True),
             (AccessSecretVersion (db_password_secret env), True),
             (AccessSecretVersion (db_name_secret env), False)]\<rparr>)
     | Inr name_data \<Rightarrow>
    (case secret_store env (cloud_sql_conn_name_secret env) of
       Inl e \<Rightarrow>
         (Inl e, s\<lparr>trace := trace s @
            [(NewSecretClient, True),
             (AccessSecretVersion (db_user_secret env), True),
             (AccessSecretVersion (db_password_secret env), True),
             (AccessSecretVersion (db_name_secret env), True),
             (AccessSecretVersion (cloud_sql_conn_name_secret env), False)]\<rparr>)
     | Inr conn_name_data \<Rightarrow>
    (case bytes_decode env ''UTF-8'' user_data of
       Inl e \<Rightarrow> (Inl e, s\<lparr>trace := trace s @ fetch_calls env\<rparr>)
     | Inr db_user \<Rightarrow>
    (case bytes_decode env ''UTF-8'' password_data of
       Inl e \<Rightarrow> (Inl e, s\<lparr>trace := trace s @ fetch_calls env\<rparr>)
     | Inr db_pass \<Rightarrow>
    (case bytes_decode env ''UTF-8'' name_data of
       Inl e \<Rightarrow> (Inl e, s\<lparr>trace := trace s @ fetch_calls env\<rparr>)
     | Inr db_name \<Rightarrow>
    (case bytes_decode env ''UTF-8'' conn_name_data of
       Inl e \<Rightarrow> (Inl e, s\<lparr>trace := trace s @ fetch_calls env\<rparr>)
     | Inr cloud_sql_connection_name \<Rightarrow>
         (outcome
            (engine_error env
               \<lparr>drivername = ''mysql+pymysql'', username = db_user, password = db_pass,
                database = db_name,
                query = [(''unix_socket'', ''/cloudsql/'' @ cloud_sql_connection_name)]\<rparr>
               db_config)
            \<lparr>engine_url =
               \<lparr>drivername = ''mysql+pymysql'', username = db_user, password = db_pass,
                database = db_name,
                query = [(''unix_socket'', ''/cloudsql/'' @ cloud_sql_connection_name)]\<rparr>,
             engine_kwargs = db_config\<rparr>,
          s\<lparr>trace := trace s @ fetch_calls env @
            [(CreateEngine
                \<lparr>drivername = ''mysql+pymysql'', username = db_user, password = db_pass,
                 database = db_name,
                 query = [(''unix_socket'', ''/cloudsql/'' @ cloud_sql_connection_name)]\<rparr>
                db_config,
              engine_error env
                \<lparr>drivername = ''mysql+pymysql'', username = db_user, password = db_pass,
                 database = db_name,
                 query = [(''unix_socket'', ''/cloudsql/'' @ cloud_sql_connection_name)]\<rparr>
                db_config = None)]\<rparr>))))))))))"
  by (simp add: init_connection_engine_def and_then_def SecretManagerServiceClient_def
      access_secret_version_def decode_def create_engine_def library_call_def outcome_def
      returned_def ret_def db_socket_dir_def fetch_calls_def
      split: option.splits sum.splits)

lemma create_connection_run:
  "create_connection env s =
     (case init_connection_engine env s of
        (Inl e, s') \<Rightarrow> (Inl e, s')
      | (Inr pool, s') \<Rightarrow> (Inr (), s'\<lparr>db := Some pool\<rparr>))"
  by (simp add: create_connection_def and_then_def)

lemma init_connection_engine_state:
  "snd (init_connection_engine env s) =
     s\<lparr>trace := trace s @ calls_made (init_connection_engine env) s\<rparr>"
  by (simp add: calls_made_def init_connection_engine_run split: option.splits sum.splits)

lemma create_connection_calls:
  "calls_made (create_connection env) s = calls_made (init_connection_engine env) s"
  by (simp add: calls_made_def create_connection_run split: prod.splits sum.splits)

lemma create_connection_result:
  "fst (create_connection env s) =
     (case fst (init_connection_engine env s) of Inl e \<Rightarrow> Inl e | Inr pool \<Rightarrow> Inr ())"
  by (simp add: create_connection_run split: prod.splits sum.splits)

lemma create_connection_db:
  "db (snd (create_connection env s)) =
     (case fst (init_connection_engine env s) of Inl e \<Rightarrow> db s | Inr pool \<Rightarrow> Some pool)"
proof -
  have "db (snd (init_connection_engine env s)) = db s"
    by (simp add: init_connection_engine_state)
  then show ?thesis
    by (auto simp: create_connection_run split: prod.splits sum.splits)
qed

lemma secret_names:
  "map (secret_resource_name (PROJECT_ID env)) secret_keys =
     [db_user_secret env, db_password_secret env, db_name_secret env,
      cloud_sql_conn_name_secret env]"
  by (simp add: secret_resource_name_def secret_keys_def db_user_secret_def
      db_password_secret_def db_name_secret_def cloud_sql_conn_name_secret_def)

lemma secret_names_differ:
  "distinct [db_user_secret env, db_password_secret env, db_name_secret env,
      cloud_sql_conn_name_secret env]"
  by (simp add: db_user_secret_def db_password_secret_def db_name_secret_def
      cloud_sql_conn_name_secret_def)

lemma init_connection_engine_calls:
  "calls_made (init_connection_engine env) s = [(NewSecretClient, False)] \<or>
   calls_made (init_connection_engine env) s =
     [(NewSecretClient, True), (AccessSecretVersion (db_user_secret env), False)] \<or>
   calls_made (init_connection_engine env) s =
     [(NewSecretClient, True), (AccessSecretVersion (db_user_secret env), True),
      (AccessSecretVersion (db_password_secret env), False)] \<or>
   calls_made (init_connection_engine env) s =
     [(NewSecretClient, True), (AccessSecretVersion (db_user_secret env), True),
      (AccessSecretVersion (db_password_secret env), True),
      (AccessSecretVersion (db_name_secret env), False)] \<or>
   calls_made (init_connection_engine env) s =
     [(NewSecretClient, True), (AccessSecretVersion (db_user_secret env), True),
      (AccessSecretVersion (db_password_secret env), True),
      (AccessSecretVersion (db_name_secret env), True),
      (AccessSecretVersion (cloud_sql_conn_name_secret env), False)] \<or>
   calls_made (init_connection_engine env) s = fetch_calls env \<or>
   (\<exists>u ok. calls_made (init_connection_engine env) s =
      fetch_calls env @ [(CreateEngine u db_config, ok)])"
  by (simp add: calls_made_def init_connection_engine_run split: option.splits sum.splits)

lemma init_connection_engine_Inr:
  assumes "fst (init_connection_engine env s) = Inr pool"
  shows "client_error env = None \<and>
         (\<exists>d1 d2 d3 d4 ident.
            secret_store env (db_user_secret env) = Inr d1 \<and>
            secret_store env (db_password_secret env) = Inr d2 \<and>
            secret_store env (db_name_secret env) = Inr d3 \<and>
            secret_store env (cloud_sql_conn_name_secret env) = Inr d4 \<and>
            bytes_decode env ''UTF-8'' d1 = Inr (username (engine_url pool)) \<and>
            bytes_decode env ''UTF-8'' d2 = Inr (password (engine_url pool)) \<and>
            bytes_decode env ''UTF-8'' d3 = Inr (database (engine_url pool)) \<and>
            bytes_decode env ''UTF-8'' d4 = Inr ident \<and>
            query (engine_url pool) = [(''unix_socket'', ''/cloudsql/'' @ ident)] \<and>
            drivername (engine_url pool) = ''mysql+pymysql'' \<and>
            engine_kwargs pool = db_config \<and>
            engine_error env (engine_url pool) db_config = None \<and>
            calls_made (init_connection_engine env) s =
              fetch_calls env @ [(CreateEngine (engine_url pool) db_config, True)])"
  using assms
  by (simp add: calls_made_def init_connection_engine_run outcome_def
      split: option.splits sum.splits) auto

lemma serve_first_request_run:
  "serve_first_request env s =
     (case create_connection env s of
        (Inl e, s') \<Rightarrow> (Inl e, s')
      | (Inr u, s') \<Rightarrow> get_pets env s')"
  by (simp add: serve_first_request_def and_then_def)

lemma secret_fetch_fails:
  assumes "client_error env = None"
    and "k < length secret_keys"
    and r: "\<And>j. j < k \<Longrightarrow>
          returned (secret_store env (map (secret_resource_name (PROJECT_ID env)) secret_keys ! j))"
    and f: "secret_store env (map (secret_resource_name (PROJECT_ID env)) secret_keys ! k) = Inl e"
  shows "fst (init_connection_engine env s) = Inl e"
proof -
  have "k < 4"
    using assms(2) by (simp add: secret_keys_def)
  then consider "k = 0" | "k = 1" | "k = 2" | "k = 3"
    by linarith
  then show ?thesis
  proof cases
    case 1
    with f assms(1) show ?thesis
      by (simp add: secret_names init_connection_engine_run)
  next
    case 2
    with f assms(1) r [of 0] show ?thesis
      by (simp add: secret_names init_connection_engine_run returned_def split: sum.splits)
  next
    case 3
    with f assms(1) r [of 0] r [of 1] show ?thesis
      by (simp add: secret_names init_connection_engine_run returned_def split: sum.splits)
  next
    case 4
    with f assms(1) r [of 0] r [of 1] r [of 2] show ?thesis
      by (simp add: secret_names init_connection_engine_run returned_def split: sum.splits)
  qed
qed

lemma init_connection_engine_no_repeat:
  "distinct (map fst (calls_made (init_connection_engine env) s))"
  using init_connection_engine_calls [of env s] secret_names_differ [of env]
  by (auto simp: fetch_calls_def)

lemma engine_failure_propagates:
  assumes "(CreateEngine u kwargs, False) \<in> set (calls_made (init_connection_engine env) s)"
  shows "\<exists>e. engine_error env u kwargs = Some e \<and> fst (init_connection_engine env s) = Inl e"
  using assms
  by (simp add: calls_made_def init_connection_engine_run fetch_calls_def outcome_def
      split: option.splits sum.splits) auto

subsection \<open>Initialisation on the concrete inputs\<close>

lemma demo_names:
  "db_user_secret demo_env = ''projects/demo/secrets/db_user_secret/versions/latest''"
  "db_password_secret demo_env = ''projects/demo/secrets/db_password_secret/versions/latest''"
  "db_name_secret demo_env = ''projects/demo/secrets/db_name_secret/versions/latest''"
  "cloud_sql_conn_name_secret demo_env =
     ''projects/demo/secrets/cloud_sql_connection_name_secret/versions/latest''"
  by (simp_all add: db_user_secret_def db_password_secret_def db_name_secret_def
      cloud_sql_conn_name_secret_def demo_env_def py_format_def)

lemma demo_secrets:
  "secret_store demo_env (db_user_secret demo_env) = Inr [0x72, 0x6f, 0x6f, 0x74]"
  "secret_store demo_env (db_password_secret demo_env) = Inr [0x70, 0x77]"
  "secret_store demo_env (db_name_secret demo_env) = Inr [0x7a, 0x6f, 0x6f]"
  "secret_store demo_env (cloud_sql_conn_name_secret demo_env) = Inr [0x70, 0x3a, 0x72, 0x3a, 0x69]"
  unfolding demo_names by (simp_all add: demo_env_def demo_store_def)

lemma demo_decoded:
  "bytes_decode demo_env ''UTF-8'' [0x72, 0x6f, 0x6f, 0x74] = Inr ''root''"
  "bytes_decode demo_env ''UTF-8'' [0x70, 0x77] = Inr ''pw''"
  "bytes_decode demo_env ''UTF-8'' [0x7a, 0x6f, 0x6f] = Inr ''zoo''"
  "bytes_decode demo_env ''UTF-8'' [0x70, 0x3a, 0x72, 0x3a, 0x69] = Inr ''p:r:i''"
  by (simp_all add: demo_env_def ascii_decode_def char_of_def bit_Suc_0_iff)

lemma demo_init:
  "fst (init_connection_engine demo_env fresh) = Inr demo_pool"
proof -
  have "client_error demo_env = None" "engine_error demo_env = (\<lambda>u kwargs. None)"
    by (simp_all add: demo_env_def)
  then show ?thesis
    by (simp add: init_connection_engine_run demo_secrets demo_decoded outcome_def
        demo_pool_def db_config_def)
qed

lemma demo_create:
  "fst (create_connection demo_env fresh) = Inr ()"
  by (simp add: create_connection_result demo_init)

lemma missing_create:
  "fst (create_connection missing_secret_env fresh) = Inl (Raised ''NotFound'')"
proof -
  have "fst (init_connection_engine missing_secret_env fresh) = Inl (Raised ''NotFound'')"
  proof (rule secret_fetch_fails [where k = 1])
    show "client_error missing_secret_env = None"
      by (simp add: missing_secret_env_def demo_env_def)
    show "1 < length secret_keys"
      by (simp add: secret_keys_def)
    show "returned (secret_store missing_secret_env
        (map (secret_resource_name (PROJECT_ID missing_secret_env)) secret_keys ! j))"
      if "j < 1" for j
      using that
      by (simp add: missing_secret_env_def demo_env_def demo_store_def secret_keys_def
          secret_resource_name_def py_format_def returned_def)
    show "secret_store missing_secret_env
        (map (secret_resource_name (PROJECT_ID missing_secret_env)) secret_keys ! 1) =
        Inl (Raised ''NotFound'')"
      by (simp add: missing_secret_env_def demo_env_def demo_store_def secret_keys_def
          secret_resource_name_def py_format_def)
  qed
  then show ?thesis
    by (simp add: create_connection_result)
qed

lemma demo_env_facts:
  "client_error demo_env = None"
  "engine_error demo_env u kwargs = None"
  by (simp_all add: demo_env_def)





section \<open>The pool that is built\<close>

text \<open>
  C6. \<open>init_connection_engine\<close> returns a pool exactly when the client is built, the
  four secrets are read and decoded and the engine construction does not raise, and
  the pool it returns is then the engine built with exactly the settings
  \<open>pool_size = 5\<close>, \<open>max_overflow = 2\<close>, \<open>pool_timeout = 30\<close> and \<open>pool_recycle = 1800\<close>,
  with the driver name \<open>mysql+pymysql\<close> (the MySQL dialect) and with the single URL
  parameter \<open>unix_socket\<close> set to \<open>/cloudsql\<close>, a slash and the decoded connection
  identifier. Once the secrets are read and decoded, the engine construction with these
  arguments is the last call of the function, whether it returns or raises; and no run
  calls \<open>create_engine\<close> with any other arguments.
\<close>

theorem engine_configuration:
  "(fst (init_connection_engine env s) = Inr pool \<longleftrightarrow>
      client_error env = None \<and>
      (\<exists>d1 d2 d3 d4 user pw name ident.
         secret_store env (db_user_secret env) = Inr d1 \<and>
         secret_store env (db_password_secret env) = Inr d2 \<and>
         secret_store env (db_name_secret env) = Inr d3 \<and>
         secret_store env (cloud_sql_conn_name_secret env) = Inr d4 \<and>
         bytes_decode env ''UTF-8'' d1 = Inr user \<and>
         bytes_decode env ''UTF-8'' d2 = Inr pw \<and>
         bytes_decode env ''UTF-8'' d3 = Inr name \<and>
         bytes_decode env ''UTF-8'' d4 = Inr ident \<and>
         engine_error env
           \<lparr>drivername = ''mysql+pymysql'', username = user, password = pw, database = name,
            query = [(''unix_socket'', ''/cloudsql'' @ ''/'' @ ident)]\<rparr>

             [(''pool_size'', 5), (''max_overflow'', 2), (''pool_timeout'', 30), (''pool_recycle'', 1800)] = None \<and>
         pool =
           \<lparr>engine_url =
              \<lparr>drivername = ''mysql+pymysql'', username = user, password = pw, database = name,
               query = [(''unix_socket'', ''/cloudsql'' @ ''/'' @ ident)]\<rparr>,
            engine_kwargs =
             [(''pool_size'', 5), (''max_overflow'', 2), (''pool_timeout'', 30), (''pool_recycle'', 1800)]\<rparr>)) \<and>
   (client_error env = None \<and>
    secret_store env (db_user_secret env) = Inr user_data \<and>
    secret_store env (db_password_secret env) = Inr pass_data \<and>
    secret_store env (db_name_secret env) = Inr name_data \<and>
    secret_store env (cloud_sql_conn_name_secret env) = Inr conn_data \<and>
    bytes_decode env ''UTF-8'' user_data = Inr db_user \<and>
    bytes_decode env ''UTF-8'' pass_data = Inr db_pass \<and>
    bytes_decode env ''UTF-8'' name_data = Inr db_name \<and>
    bytes_decode env ''UTF-8'' conn_data = Inr conn_name \<longrightarrow>
      last (calls_made (init_connection_engine env) s) =
        (CreateEngine
           \<lparr>drivername = ''mysql+pymysql'', username = db_user, password = db_pass,
            database = db_name, query = [(''unix_socket'', ''/cloudsql'' @ ''/'' @ conn_name)]\<rparr>

             [(''pool_size'', 5), (''max_overflow'', 2), (''pool_timeout'', 30), (''pool_recycle'', 1800)],
         engine_error env
           \<lparr>drivername = ''mysql+pymysql'', username = db_user, password = db_pass,
            database = db_name, query = [(''unix_socket'', ''/cloudsql'' @ ''/'' @ conn_name)]\<rparr>

             [(''pool_size'', 5), (''max_overflow'', 2), (''pool_timeout'', 30), (''pool_recycle'', 1800)] = None)) \<and>
   (\<forall>u kwargs ok.
      (CreateEngine u kwargs, ok) \<in> set (calls_made (init_connection_engine env) s) \<longrightarrow>
        kwargs =
             [(''pool_size'', 5), (''max_overflow'', 2), (''pool_timeout'', 30), (''pool_recycle'', 1800)] \<and>
        drivername u = ''mysql+pymysql'' \<and>
        (\<exists>ident. query u = [(''unix_socket'', ''/cloudsql'' @ ''/'' @ ident)]))"
proof (intro conjI)
  show "fst (init_connection_engine env s) = Inr pool \<longleftrightarrow>
      client_error env = None \<and>
      (\<exists>d1 d2 d3 d4 user pw name ident.
         secret_store env (db_user_secret env) = Inr d1 \<and>
         secret_store env (db_password_secret env) = Inr d2 \<and>
         secret_store env (db_name_secret env) = Inr d3 \<and>
         secret_store env (cloud_sql_conn_name_secret env) = Inr d4 \<and>
         bytes_decode env ''UTF-8'' d1 = Inr user \<and>
         bytes_decode env ''UTF-8'' d2 = Inr pw \<and>
         bytes_decode env ''UTF-8'' d3 = Inr name \<and>
         bytes_decode env ''UTF-8'' d4 = Inr ident \<and>
         engine_error env
           \<lparr>drivername = ''mysql+pymysql'', username = user, password = pw, database = name,
            query = [(''unix_socket'', ''/cloudsql'' @ ''/'' @ ident)]\<rparr>

             [(''pool_size'', 5), (''max_overflow'', 2), (''pool_timeout'', 30), (''pool_recycle'', 1800)] = None \<and>
         pool =
           \<lparr>engine_url =
              \<lparr>drivername = ''mysql+pymysql'', username = user, password = pw, database = name,
               query = [(''unix_socket'', ''/cloudsql'' @ ''/'' @ ident)]\<rparr>,
            engine_kwargs =
             [(''pool_size'', 5), (''max_overflow'', 2), (''pool_timeout'', 30), (''pool_recycle'', 1800)]\<rparr>)"
    by (simp add: init_connection_engine_run db_config_def outcome_def
        split: option.splits sum.splits) auto
next
  show "client_error env = None \<and>
    secret_store env (db_user_secret env) = Inr user_data \<and>
    secret_store env (db_password_secret env) = Inr pass_data \<and>
    secret_store env (db_name_secret env) = Inr name_data \<and>
    secret_store env (cloud_sql_conn_name_secret env) = Inr conn_data \<and>
    bytes_decode env ''UTF-8'' user_data = Inr db_user \<and>
    bytes_decode env ''UTF-8'' pass_data = Inr db_pass \<and>
    bytes_decode env ''UTF-8'' name_data = Inr db_name \<and>
    bytes_decode env ''UTF-8'' conn_data = Inr conn_name \<longrightarrow>
      last (calls_made (init_connection_engine env) s) =
        (CreateEngine
           \<lparr>drivername = ''mysql+pymysql'', username = db_user, password = db_pass,
            database = db_name, query = [(''unix_socket'', ''/cloudsql'' @ ''/'' @ conn_name)]\<rparr>

             [(''pool_size'', 5), (''max_overflow'', 2), (''pool_timeout'', 30), (''pool_recycle'', 1800)],
         engine_error env
           \<lparr>drivername = ''mysql+pymysql'', username = db_user, password = db_pass,
            database = db_name, query = [(''unix_socket'', ''/cloudsql'' @ ''/'' @ conn_name)]\<rparr>

             [(''pool_size'', 5), (''max_overflow'', 2), (''pool_timeout'', 30), (''pool_recycle'', 1800)] = None)"
    by (simp add: calls_made_def init_connection_engine_run db_config_def)
next
  show "\<forall>u kwargs ok.
      (CreateEngine u kwargs, ok) \<in> set (calls_made (init_connection_engine env) s) \<longrightarrow>
        kwargs =
             [(''pool_size'', 5), (''max_overflow'', 2), (''pool_timeout'', 30), (''pool_recycle'', 1800)] \<and>
        drivername u = ''mysql+pymysql'' \<and>
        (\<exists>ident. query u = [(''unix_socket'', ''/cloudsql'' @ ''/'' @ ident)])"
    by (simp add: calls_made_def init_connection_engine_run fetch_calls_def db_config_def
        outcome_def split: option.splits sum.splits)
qed

theorem engine_configuration_witness:
  "fst (init_connection_engine demo_env fresh) =
     Inr \<lparr>engine_url =
            \<lparr>drivername = ''mysql+pymysql'', username = ''root'', password = ''pw'',
             database = ''zoo'', query = [(''unix_socket'', ''/cloudsql/p:r:i'')]\<rparr>,
          engine_kwargs =
             [(''pool_size'', 5), (''max_overflow'', 2), (''pool_timeout'', 30), (''pool_recycle'', 1800)]\<rparr> \<and>
   last (calls_made (init_connection_engine demo_env) fresh) =
     (CreateEngine
        \<lparr>drivername = ''mysql+pymysql'', username = ''root'', password = ''pw'',
         database = ''zoo'', query = [(''unix_socket'', ''/cloudsql/p:r:i'')]\<rparr>

             [(''pool_size'', 5), (''max_overflow'', 2), (''pool_timeout'', 30), (''pool_recycle'', 1800)],
      True)"
proof -
  note t = engine_configuration [where env = demo_env and s = fresh
      and user_data = "[0x72, 0x6f, 0x6f, 0x74]" and pass_data = "[0x70, 0x77]" and name_data = "[0x7a, 0x6f, 0x6f]"
      and conn_data = "[0x70, 0x3a, 0x72, 0x3a, 0x69]" and db_user = "''root''" and db_pass = "''pw''"
      and db_name = "''zoo''" and conn_name = "''p:r:i''"
      and pool = "\<lparr>engine_url =
            \<lparr>drivername = ''mysql+pymysql'', username = ''root'', password = ''pw'',
             database = ''zoo'', query = [(''unix_socket'', ''/cloudsql/p:r:i'')]\<rparr>,
          engine_kwargs =
             [(''pool_size'', 5), (''max_overflow'', 2), (''pool_timeout'', 30), (''pool_recycle'', 1800)]\<rparr>"]
  from t show ?thesis
    by (simp add: demo_secrets demo_decoded demo_env_facts)
qed

section \<open>The secrets that are read\<close>




section \<open>The global \<open>db\<close>\<close>

text \<open>
  C8. When \<open>create_connection\<close> raises, \<open>db\<close> is what it was before the call (unassigned
  if it was unassigned); this is the case whenever any library call of the
  initialisation raised. When \<open>create_connection\<close> returns, \<open>db\<close> holds exactly the
  pool that \<open>init_connection_engine\<close> returned, and the engine construction that
  returned it is the last call made.
\<close>

theorem db_assigned_only_on_success:
  "(fst (create_connection env s) = Inl e \<longrightarrow> db (snd (create_connection env s)) = db s) \<and>
   (fst (create_connection env s) = Inr () \<longrightarrow>
      (\<exists>pool. fst (init_connection_engine env s) = Inr pool \<and>
         db (snd (create_connection env s)) = Some pool \<and>
         last (calls_made (create_connection env) s) =
           (CreateEngine (engine_url pool) (engine_kwargs pool), True))) \<and>
   ((\<exists>c. (c, False) \<in> set (calls_made (create_connection env) s)) \<longrightarrow>
      (\<exists>e'. fst (create_connection env s) = Inl e') \<and>
      db (snd (create_connection env s)) = db s)"
proof (intro conjI impI)
  assume "fst (create_connection env s) = Inl e"
  then show "db (snd (create_connection env s)) = db s"
    by (simp add: create_connection_result create_connection_db split: sum.splits)
next
  assume "fst (create_connection env s) = Inr ()"
  then obtain pool where p: "fst (init_connection_engine env s) = Inr pool"
    by (auto simp: create_connection_result split: sum.splits)
  from init_connection_engine_Inr [OF p]
  have "last (calls_made (create_connection env) s) =
      (CreateEngine (engine_url pool) (engine_kwargs pool), True)"
    by (auto simp: create_connection_calls)
  with p show "\<exists>pool. fst (init_connection_engine env s) = Inr pool \<and>
         db (snd (create_connection env s)) = Some pool \<and>
         last (calls_made (create_connection env) s) =
           (CreateEngine (engine_url pool) (engine_kwargs pool), True)"
    by (auto simp: create_connection_db)
next
  assume f: "\<exists>c. (c, False) \<in> set (calls_made (create_connection env) s)"
  have "\<exists>e'. fst (init_connection_engine env s) = Inl e'"
  proof (cases "fst (init_connection_engine env s)")
    case (Inl e')
    then show ?thesis by blast
  next
    case (Inr pool)
    from init_connection_engine_Inr [OF this] f show ?thesis
      by (auto simp: create_connection_calls fetch_calls_def)
  qed
  then show "\<exists>e'. fst (create_connection env s) = Inl e'"
    and "db (snd (create_connection env s)) = db s"
    by (auto simp: create_connection_result create_connection_db)
qed

theorem db_assigned_only_on_success_witness:
  "fst (create_connection demo_env fresh) = Inr () \<and>
   db (snd (create_connection demo_env fresh)) = Some demo_pool \<and>
   fst (create_connection missing_secret_env fresh) = Inl (Raised ''NotFound'') \<and>
   db (snd (create_connection missing_secret_env fresh)) = None"
proof -
  have "db fresh = None"
    by (simp add: fresh_def)
  then show ?thesis
    using db_assigned_only_on_success [of demo_env fresh]
      db_assigned_only_on_success [of missing_secret_env fresh "Raised ''NotFound''"]
      demo_create demo_init missing_create
    by fastforce
qed

section \<open>Failures\<close>

text \<open>
  C2. No failure is caught, retried or recovered. If the Secret Manager client cannot be
  built, if one of the four reads raises after the earlier ones returned, or if the
  engine construction raises, then \<open>create_connection\<close> raises that very exception;
  it returns only if the client was built, every secret was read and decoded, and no
  call raised. When it raises, \<open>db\<close> is left as it was and the first request raises
  the same exception without running the view. \<open>get_pets\<close> raises when \<open>db\<close> is
  unassigned, raises the exception of the checkout when the checkout fails, and raises
  the exception of the query when the query fails; an exception that leaves the view is
  answered by the framework's error handler, so no response of the program exists for
  that request. Whenever \<open>get_pets\<close> does return a response, its status is 200, no call
  raised and the document holds exactly the rows the database answered, so no empty or
  default data is ever served for a failure. No call is made twice within one run of
  \<open>create_connection\<close> or of \<open>get_pets\<close>.
\<close>

theorem failures_propagate:
  "(client_error env = Some e \<longrightarrow> fst (create_connection env s) = Inl e) \<and>
   (client_error env = None \<and> k < length secret_keys \<and>
    (\<forall>j<k. returned
       (secret_store env (map (secret_resource_name (PROJECT_ID env)) secret_keys ! j))) \<and>
    secret_store env (map (secret_resource_name (PROJECT_ID env)) secret_keys ! k) = Inl e \<longrightarrow>
      fst (create_connection env s) = Inl e) \<and>
   ((CreateEngine u kwargs, False) \<in> set (calls_made (create_connection env) s) \<longrightarrow>
      (\<exists>e'. engine_error env u kwargs = Some e' \<and> fst (create_connection env s) = Inl e')) \<and>
   (fst (create_connection env s) = Inr () \<longrightarrow>
      client_error env = None \<and>
      (\<forall>name\<in>set (map (secret_resource_name (PROJECT_ID env)) secret_keys).
         \<exists>data text. secret_store env name = Inr data \<and>
           bytes_decode env ''UTF-8'' data = Inr text) \<and>
      (\<forall>ev\<in>set (calls_made (create_connection env) s). snd ev)) \<and>
   (fst (create_connection env s) = Inl e \<longrightarrow>
      db (snd (create_connection env s)) = db s \<and>
      fst (serve_first_request env s) = Inl e \<and>
      calls_made (serve_first_request env) s = calls_made (create_connection env) s) \<and>
   (db s = None \<longrightarrow> fst (get_pets env s) = Inl (NameError ''db'')) \<and>
   (db s = Some pool \<and> checkout_error env pool = Some e \<longrightarrow> fst (get_pets env s) = Inl e) \<and>
   (db s = Some pool \<and> checkout_error env pool = None \<and>
    database_answer env ''SELECT id, name from pets;'' = Inl e \<longrightarrow>
      fst (get_pets env s) = Inl e) \<and>
   (fst (get_pets env s) = Inr resp \<longrightarrow>
      snd resp = 200 \<and>
      (\<exists>rows objs. database_answer env ''SELECT id, name from pets;'' = Inr rows \<and>
         fst resp = JArray objs \<and> length objs = length rows \<and>
         (\<forall>i<length rows. \<exists>a b.
            json_value (rows ! i ! 0) = Inr a \<and> json_value (rows ! i ! 1) = Inr b \<and>
            objs ! i = JObject [(''id'', a), (''name'', b)])) \<and>
      (\<forall>ev\<in>set (calls_made (get_pets env) s). snd ev)) \<and>
   distinct (map fst (calls_made (create_connection env) s)) \<and>
   distinct (map fst (calls_made (get_pets env) s))"
proof (intro conjI impI)
  assume "client_error env = Some e"
  then show "fst (create_connection env s) = Inl e"
    by (simp add: create_connection_result init_connection_engine_run)
next
  assume "client_error env = None \<and> k < length secret_keys \<and>
    (\<forall>j<k. returned
       (secret_store env (map (secret_resource_name (PROJECT_ID env)) secret_keys ! j))) \<and>
    secret_store env (map (secret_resource_name (PROJECT_ID env)) secret_keys ! k) = Inl e"
  then have "fst (init_connection_engine env s) = Inl e"
    by (intro secret_fetch_fails [where k = k]) blast+
  then show "fst (create_connection env s) = Inl e"
    by (simp add: create_connection_result)
next
  assume "(CreateEngine u kwargs, False) \<in> set (calls_made (create_connection env) s)"
  then have "\<exists>e'. engine_error env u kwargs = Some e' \<and> fst (init_connection_engine env s) = Inl e'"
    by (simp add: create_connection_calls engine_failure_propagates)
  then show "\<exists>e'. engine_error env u kwargs = Some e' \<and> fst (create_connection env s) = Inl e'"
    by (auto simp: create_connection_result)
next
  assume ok: "fst (create_connection env s) = Inr ()"
  then obtain p where p: "fst (init_connection_engine env s) = Inr p"
    by (auto simp: create_connection_result split: sum.splits)
  from init_connection_engine_Inr [OF p] show "client_error env = None"
    by simp
  from init_connection_engine_Inr [OF p]
  show "\<forall>name\<in>set (map (secret_resource_name (PROJECT_ID env)) secret_keys).
         \<exists>data text. secret_store env name = Inr data \<and>
           bytes_decode env ''UTF-8'' data = Inr text"
    unfolding secret_names by auto
  from init_connection_engine_Inr [OF p]
  show "\<forall>ev\<in>set (calls_made (create_connection env) s). snd ev"
    by (auto simp: create_connection_calls fetch_calls_def)
next
  assume "fst (create_connection env s) = Inl e"
  then show "db (snd (create_connection env s)) = db s"
    by (simp add: create_connection_result create_connection_db split: sum.splits)
next
  assume "fst (create_connection env s) = Inl e"
  then show "fst (serve_first_request env s) = Inl e"
    by (auto simp: serve_first_request_run split: prod.splits sum.splits)
next
  assume "fst (create_connection env s) = Inl e"
  then show "calls_made (serve_first_request env) s = calls_made (create_connection env) s"
    by (auto simp: calls_made_def serve_first_request_run split: prod.splits sum.splits)
next
  assume "db s = None"
  then show "fst (get_pets env s) = Inl (NameError ''db'')"
    by (simp add: get_pets_unassigned)
next
  assume "db s = Some pool \<and> checkout_error env pool = Some e"
  then show "fst (get_pets env s) = Inl e"
    by (simp add: get_pets_checkout_fails)
next
  assume "db s = Some pool \<and> checkout_error env pool = None \<and>
    database_answer env ''SELECT id, name from pets;'' = Inl e"
  then show "fst (get_pets env s) = Inl e"
    by (simp add: get_pets_query_fails)
next
  assume r: "fst (get_pets env s) = Inr resp"
  from get_pets_Inr [OF r] show "snd resp = 200"
    by auto
  from get_pets_Inr [OF r]
  show "\<exists>rows objs. database_answer env ''SELECT id, name from pets;'' = Inr rows \<and>
         fst resp = JArray objs \<and> length objs = length rows \<and>
         (\<forall>i<length rows. \<exists>a b.
            json_value (rows ! i ! 0) = Inr a \<and> json_value (rows ! i ! 1) = Inr b \<and>
            objs ! i = JObject [(''id'', a), (''name'', b)])"
    by fastforce
  from get_pets_Inr [OF r] show "\<forall>ev\<in>set (calls_made (get_pets env) s). snd ev"
    by (auto simp: get_pets_calls returned_def)
next
  show "distinct (map fst (calls_made (create_connection env) s))"
    by (simp add: create_connection_calls init_connection_engine_no_repeat)
next
  show "distinct (map fst (calls_made (get_pets env) s))"
    by (simp add: get_pets_calls split: option.splits)
qed

theorem failures_propagate_witness:
  "fst (create_connection missing_secret_env fresh) = Inl (Raised ''NotFound'') \<and>
   db (snd (create_connection missing_secret_env fresh)) = None \<and>
   fst (serve_first_request missing_secret_env fresh) = Inl (Raised ''NotFound'') \<and>
   fst (get_pets demo_env fresh) = Inl (NameError ''db'') \<and>
   fst (get_pets exhausted_env ready) = Inl (Raised ''TimeoutError'') \<and>
   fst (get_pets broken_query_env ready) = Inl (Raised ''OperationalError'')"
proof -
  have h: "client_error missing_secret_env = None \<and> 1 < length secret_keys \<and>
      (\<forall>j<1. returned (secret_store missing_secret_env
         (map (secret_resource_name (PROJECT_ID missing_secret_env)) secret_keys ! j))) \<and>
      secret_store missing_secret_env
        (map (secret_resource_name (PROJECT_ID missing_secret_env)) secret_keys ! 1) =
        Inl (Raised ''NotFound'')"
    by (simp add: missing_secret_env_def demo_env_def demo_store_def secret_keys_def
        secret_resource_name_def py_format_def returned_def)
  note m = failures_propagate [where env = missing_secret_env and s = fresh and k = 1
      and e = "Raised ''NotFound''"]
  from m h have a: "fst (create_connection missing_secret_env fresh) = Inl (Raised ''NotFound'')"
    by blast
  with m have b: "db (snd (create_connection missing_secret_env fresh)) = db fresh"
    and c: "fst (serve_first_request missing_secret_env fresh) = Inl (Raised ''NotFound'')"
    by blast+
  have "db fresh = None"
    by (simp add: fresh_def)
  with failures_propagate [where env = demo_env and s = fresh]
  have d: "fst (get_pets demo_env fresh) = Inl (NameError ''db'')"
    by blast
  have "db ready = Some demo_pool \<and>
      checkout_error exhausted_env demo_pool = Some (Raised ''TimeoutError'')"
    by (simp add: ready_def exhausted_env_def)
  with failures_propagate [where env = exhausted_env and s = ready and pool = demo_pool
      and e = "Raised ''TimeoutError''"]
  have f: "fst (get_pets exhausted_env ready) = Inl (Raised ''TimeoutError'')"
    by blast
  have "db ready = Some demo_pool \<and> checkout_error broken_query_env demo_pool = None \<and>
      database_answer broken_query_env ''SELECT id, name from pets;'' =
        Inl (Raised ''OperationalError'')"
    by (simp add: ready_def broken_query_env_def demo_env_def)
  with failures_propagate [where env = broken_query_env and s = ready and pool = demo_pool
      and e = "Raised ''OperationalError''"]
  have g: "fst (get_pets broken_query_env ready) = Inl (Raised ''OperationalError'')"
    by blast
  from a b c d f g \<open>db fresh = None\<close> show ?thesis
    by simp
qed

end
